theory Spec2Isabelle
  imports Complex_Main "HOL-Library.AList"
begin

section \<open>Python values, dictionaries and exceptions\<close>

text \<open>
  The ALM adapters pass JSON-like dictionaries around. A Python \<open>dict\<close> with string
  keys is an association list in insertion order: \<open>map_of d k\<close> is \<open>d.get(k)\<close>,
  \<open>k \<in> fst ` set d\<close> is \<open>k in d\<close>, and \<open>AList.update k v d\<close> is \<open>d[k] = v\<close>
  (it overwrites in place or appends). Values are \<open>None\<close>, integers, strings, lists and
  nested dictionaries; booleans and floats do not occur in the fields modelled here.
\<close>

type_synonym 'v pydict = "(string \<times> 'v) list"

datatype pyval =
    PNone
  | PInt int
  | PStr string
  | PList "pyval list"
  | PDict "(string \<times> pyval) list"

text \<open>
  Exceptions are values. Only subclasses of \<open>Exception\<close> are modelled (the ones an
  \<open>except Exception\<close> clause catches); \<open>str_exn\<close> is Python's \<open>str(e)\<close>.
\<close>

datatype exn_class =
    JIRAError | ClientException | TypeError | ValueError | KeyError
  | AttributeError | ConnectionError | RuntimeError

datatype exn = Exn exn_class string

fun class_of :: "exn \<Rightarrow> exn_class" where
  "class_of (Exn c m) = c"

fun str_exn :: "exn \<Rightarrow> string" where
  "str_exn (Exn c m) = m"

section \<open>base\_adapter.py: map\_fields\<close>

text \<open>
  A field mapping sends a source attribute to a target descriptor: either a flat field
  name, or a dictionary that may hold a \<open>"field"\<close> entry and a \<open>"transform"\<close> entry.
  The transform entry is a callable (which may raise) or some other object.
\<close>

datatype transform = Callable "pyval \<Rightarrow> exn + pyval" | NotCallable

datatype target_field =
    Flat string
  | Nested "string option" "transform option"

text \<open>One iteration of the \<open>for source_field, target_field in field_mapping.items()\<close> loop.\<close>

fun map_entry ::
  "pyval pydict \<Rightarrow> string \<times> target_field \<Rightarrow> pyval pydict \<Rightarrow> exn + pyval pydict" where
  "map_entry source_data (source_field, target_field) mapped_data =
     (case map_of source_data source_field of
        None \<Rightarrow> Inr mapped_data
      | Some val \<Rightarrow>
          (case target_field of
             Nested fld tr \<Rightarrow>
               (case fld of
                  None \<Rightarrow> Inr mapped_data
                | Some mapped_field \<Rightarrow>
                    (case tr of
                       Some (Callable transform_func) \<Rightarrow>
                         (case transform_func val of
                            Inl e \<Rightarrow> Inl e
                          | Inr val' \<Rightarrow> Inr (AList.update mapped_field val' mapped_data))
                     | Some NotCallable \<Rightarrow> Inr (AList.update mapped_field val mapped_data)
                     | None \<Rightarrow> Inr (AList.update mapped_field val mapped_data)))
           | Flat name \<Rightarrow> Inr (AList.update name val mapped_data)))"

text \<open>The loop: the first exception leaves it.\<close>

fun map_fields_loop ::
  "pyval pydict \<Rightarrow> (string \<times> target_field) list \<Rightarrow> pyval pydict \<Rightarrow> exn + pyval pydict" where
  "map_fields_loop source_data [] mapped_data = Inr mapped_data"
| "map_fields_loop source_data (entry # rest) mapped_data =
     (case map_entry source_data entry mapped_data of
        Inl e \<Rightarrow> Inl e
      | Inr mapped_data' \<Rightarrow> map_fields_loop source_data rest mapped_data')"

text \<open>\<open>map_fields\<close>: the \<open>try\<close> body is the loop; \<open>except Exception\<close> returns \<open>{}\<close>.\<close>

definition map_fields :: "pyval pydict \<Rightarrow> (string \<times> target_field) list \<Rightarrow> pyval pydict" where
  "map_fields source_data field_mapping =
     (case map_fields_loop source_data field_mapping [] of
        Inl e \<Rightarrow> []
      | Inr mapped_data \<Rightarrow> mapped_data)"

text \<open>
  Reading a mapping entry: the target field it writes (if any) and the value it writes
  for a source value.
\<close>

fun field_of :: "target_field \<Rightarrow> string option" where
  "field_of (Flat name) = Some name"
| "field_of (Nested fld tr) = fld"

fun transformed :: "target_field \<Rightarrow> pyval \<Rightarrow> exn + pyval" where
  "transformed (Nested fld (Some (Callable f))) v = f v"
| "transformed t v = Inr v"

text \<open>An entry whose transform is called on the record's value and raises.\<close>

definition raising_entry :: "pyval pydict \<Rightarrow> string \<times> target_field \<Rightarrow> bool" where
  "raising_entry source_data entry =
     (case map_of source_data (fst entry) of
        None \<Rightarrow> False
      | Some v \<Rightarrow> field_of (snd entry) \<noteq> None \<and> isl (transformed (snd entry) v))"

section \<open>base\_adapter.py: retry\_operation\<close>








section \<open>Response envelopes (base\_adapter.py)\<close>

text \<open>
  \<open>format_error_response\<close> and \<open>format_success_response\<close> build the uniform result
  dictionary: \<open>success\<close>, the adapter's class name, and either an error string or the
  data merged into the response. The factory's own error dictionaries carry no adapter.
\<close>

record 'a envelope =
  success :: bool
  adapter :: "string option"
  error :: "string option"
  data :: "'a option"

definition format_error_response :: "string \<Rightarrow> string \<Rightarrow> 'a envelope" where
  "format_error_response name msg =
     \<lparr>success = False, adapter = Some name, error = Some msg, data = None\<rparr>"

definition format_success_response :: "string \<Rightarrow> 'a \<Rightarrow> 'a envelope" where
  "format_success_response name d =
     \<lparr>success = True, adapter = Some name, error = None, data = Some d\<rparr>"

section \<open>jira\_adapter.py: the remote client\<close>

text \<open>
  The JIRA client library is external. Its four calls used by the synchronisation are
  parameters of the model: each takes the remote state and returns the new one with
  either a result or the exception raised. Every call made is appended to a log, so
  that the number and order of remote calls can be stated.
\<close>

record jira_issue =
  issue_key :: string
  issue_id :: string
  issue_fields :: "pyval pydict"

datatype jira_call =
    Project string
  | CreateIssue "pyval pydict"
  | GetIssue pyval
  | UpdateIssue string "pyval pydict"

record 's jira_api =
  client_project :: "string \<Rightarrow> 's \<Rightarrow> (exn + unit) \<times> 's"
  client_create_issue :: "pyval pydict \<Rightarrow> 's \<Rightarrow> (exn + jira_issue) \<times> 's"
  client_issue :: "pyval \<Rightarrow> 's \<Rightarrow> (exn + jira_issue) \<times> 's"
  issue_update :: "jira_issue \<Rightarrow> pyval pydict \<Rightarrow> 's \<Rightarrow> (exn + unit) \<times> 's"

type_synonym 's world = "'s \<times> jira_call list"

definition remote ::
  "jira_call \<Rightarrow> ('s \<Rightarrow> (exn + 'a) \<times> 's) \<Rightarrow> 's world \<Rightarrow> (exn + 'a) \<times> 's world" where
  "remote c f w = (case f (fst w) of (r, s') \<Rightarrow> (r, (s', snd w @ [c])))"

section \<open>jira\_adapter.py: synchronising one requirement\<close>

type_synonym requirement = "pyval pydict"

record sync_config =
  jira_project_key :: "string option"
  requirements :: "requirement list"
  issue_type :: "string option"
  field_mapping :: "(string \<times> string) list"

text \<open>
  \<open>requirements\<close> and \<open>field_mapping\<close> are read with the defaults \<open>[]\<close> and \<open>{}\<close>, so an
  absent key is the empty list; \<open>issue_type\<close> defaults to \<open>"Story"\<close>.
\<close>

text \<open>The result dictionaries of the per-requirement functions, by their three shapes.\<close>

datatype item_result =
    Created string string
  | Updated pyval "string list"
  | Failed string

fun result_success :: "item_result \<Rightarrow> bool" where
  "result_success (Failed msg) = False"
| "result_success r = True"

fun result_created :: "item_result \<Rightarrow> bool" where
  "result_created (Created k i) = True"
| "result_created r = False"

fun result_error :: "item_result \<Rightarrow> string" where
  "result_error (Failed msg) = msg"
| "result_error r = []"

text \<open>Python truthiness, and \<open>d.get(k)\<close> tested with \<open>if\<close>.\<close>

fun truthy :: "pyval \<Rightarrow> bool" where
  "truthy PNone = False"
| "truthy (PInt i) = (i \<noteq> 0)"
| "truthy (PStr s) = (s \<noteq> [])"
| "truthy (PList l) = (l \<noteq> [])"
| "truthy (PDict d) = (d \<noteq> [])"

definition get_or_none :: "pyval pydict \<Rightarrow> string \<Rightarrow> pyval" where
  "get_or_none d k = (case map_of d k of None \<Rightarrow> PNone | Some v \<Rightarrow> v)"

text \<open>\<open>x[:100]\<close>: strings and lists are sliced, anything else raises.\<close>

fun slice100 :: "pyval \<Rightarrow> exn + pyval" where
  "slice100 (PStr s) = Inr (PStr (take 100 s))"
| "slice100 (PList l) = Inr (PList (take 100 l))"
| "slice100 PNone = Inl (Exn TypeError ''NoneType object is not subscriptable'')"
| "slice100 (PInt i) = Inl (Exn TypeError ''int object is not subscriptable'')"
| "slice100 (PDict d) = Inl (Exn TypeError ''unhashable type: slice'')"

text \<open>
  \<open>requirement.get("title", requirement.get("text", "")[:100])\<close>: the default argument
  is evaluated first, whether or not the title is present.
\<close>

definition new_summary :: "requirement \<Rightarrow> exn + pyval" where
  "new_summary requirement =
     (case slice100 (case map_of requirement ''text'' of None \<Rightarrow> PStr [] | Some t \<Rightarrow> t) of
        Inl e \<Rightarrow> Inl e
      | Inr d \<Rightarrow> Inr (case map_of requirement ''title'' of None \<Rightarrow> d | Some t \<Rightarrow> t))"

definition new_description :: "requirement \<Rightarrow> pyval" where
  "new_description requirement =
     (case map_of requirement ''text'' of None \<Rightarrow> PStr [] | Some t \<Rightarrow> t)"

text \<open>The custom-field loop of \<open>_create_jira_issue\<close>.\<close>

fun add_custom_fields ::
  "(string \<times> string) list \<Rightarrow> requirement \<Rightarrow> pyval pydict \<Rightarrow> pyval pydict" where
  "add_custom_fields [] requirement issue_data = issue_data"
| "add_custom_fields ((req_field, jira_field) # rest) requirement issue_data =
     (case map_of requirement req_field of
        None \<Rightarrow> add_custom_fields rest requirement issue_data
      | Some v \<Rightarrow> add_custom_fields rest requirement (AList.update jira_field v issue_data))"

definition create_payload :: "string \<Rightarrow> requirement \<Rightarrow> sync_config \<Rightarrow> exn + pyval pydict" where
  "create_payload project_key requirement cfg =
     (case new_summary requirement of
        Inl e \<Rightarrow> Inl e
      | Inr summ \<Rightarrow>
          Inr (add_custom_fields (field_mapping cfg) requirement
                 [(''project'', PDict [(''key'', PStr project_key)]),
                  (''summary'', summ),
                  (''description'', new_description requirement),
                  (''issuetype'', PDict [(''name'',
                      PStr (case issue_type cfg of None \<Rightarrow> ''Story'' | Some t \<Rightarrow> t))])]))"

text \<open>\<open>_create_jira_issue\<close>: only \<open>JIRAError\<close> is caught here; anything else propagates.\<close>

definition create_jira_issue ::
  "'s jira_api \<Rightarrow> string \<Rightarrow> requirement \<Rightarrow> sync_config \<Rightarrow> 's world
     \<Rightarrow> (exn + item_result) \<times> 's world" where
  "create_jira_issue client project_key requirement cfg w =
     (case create_payload project_key requirement cfg of
        Inl e \<Rightarrow> (if class_of e = JIRAError then Inr (Failed (str_exn e)) else Inl e, w)
      | Inr issue_data \<Rightarrow>
          (case remote (CreateIssue issue_data) (client_create_issue client issue_data) w of
             (Inl e, w') \<Rightarrow>
               (if class_of e = JIRAError then Inr (Failed (str_exn e)) else Inl e, w')
           | (Inr new_issue, w') \<Rightarrow>
               (Inr (Created (issue_key new_issue) (issue_id new_issue)), w')))"

text \<open>Attribute access \<open>issue.fields.summary\<close>, and \<open>getattr(issue.fields, name, None)\<close>.\<close>

definition field_attr :: "pyval pydict \<Rightarrow> string \<Rightarrow> exn + pyval" where
  "field_attr cur_fields name =
     (case map_of cur_fields name of
        None \<Rightarrow> Inl (Exn AttributeError name)
      | Some v \<Rightarrow> Inr v)"

fun changed_custom_fields ::
  "(string \<times> string) list \<Rightarrow> requirement \<Rightarrow> pyval pydict \<Rightarrow> pyval pydict \<Rightarrow> pyval pydict" where
  "changed_custom_fields [] requirement cur_fields update_data = update_data"
| "changed_custom_fields ((req_field, jira_field) # rest) requirement cur_fields update_data =
     (case map_of requirement req_field of
        None \<Rightarrow> changed_custom_fields rest requirement cur_fields update_data
      | Some new_value \<Rightarrow>
          (let current_value = get_or_none cur_fields jira_field
           in changed_custom_fields rest requirement cur_fields
                (if current_value \<noteq> new_value
                 then AList.update jira_field new_value update_data
                 else update_data)))"

text \<open>
  The \<open>update_data\<close> that \<open>_update_jira_issue\<close> computes from the fetched issue: summary,
  description, then the mapped custom fields, each entered only when it differs.
  Dictionaries are compared as association lists.
\<close>

definition compute_update_data ::
  "pyval pydict \<Rightarrow> requirement \<Rightarrow> sync_config \<Rightarrow> exn + pyval pydict" where
  "compute_update_data cur_fields requirement cfg =
     (case new_summary requirement of
        Inl e \<Rightarrow> Inl e
      | Inr summ \<Rightarrow>
          (case field_attr cur_fields ''summary'' of
             Inl e \<Rightarrow> Inl e
           | Inr cur_summary \<Rightarrow>
               (let update_data = (if cur_summary \<noteq> summ then [(''summary'', summ)] else [])
                in case field_attr cur_fields ''description'' of
                     Inl e \<Rightarrow> Inl e
                   | Inr cur_description \<Rightarrow>
                       Inr (changed_custom_fields (field_mapping cfg) requirement cur_fields
                              (if cur_description \<noteq> new_description requirement
                               then AList.update ''description'' (new_description requirement)
                                      update_data
                               else update_data)))))"

definition catch_jira :: "(exn + item_result) \<times> 'w \<Rightarrow> (exn + item_result) \<times> 'w" where
  "catch_jira r =
     (case r of
        (Inl e, w) \<Rightarrow> (if class_of e = JIRAError then Inr (Failed (str_exn e)) else Inl e, w)
      | (Inr x, w) \<Rightarrow> (Inr x, w))"

text \<open>\<open>_update_jira_issue\<close>: fetch, diff, and call \<open>issue.update\<close> only \<open>if update_data\<close>.\<close>

definition update_jira_issue ::
  "'s jira_api \<Rightarrow> pyval \<Rightarrow> requirement \<Rightarrow> sync_config \<Rightarrow> 's world
     \<Rightarrow> (exn + item_result) \<times> 's world" where
  "update_jira_issue client key requirement cfg w =
     catch_jira
       (case remote (GetIssue key) (client_issue client key) w of
          (Inl e, w1) \<Rightarrow> (Inl e, w1)
        | (Inr issue, w1) \<Rightarrow>
            (case compute_update_data (issue_fields issue) requirement cfg of
               Inl e \<Rightarrow> (Inl e, w1)
             | Inr update_data \<Rightarrow>
                 if update_data \<noteq> []
                 then
                   (case remote (UpdateIssue (issue_key issue) update_data)
                           (issue_update client issue update_data) w1 of
                      (Inl e, w2) \<Rightarrow> (Inl e, w2)
                    | (Inr u, w2) \<Rightarrow> (Inr (Updated key (map fst update_data)), w2))
                 else (Inr (Updated key (map fst update_data)), w1)))"

text \<open>
  \<open>_sync_requirement_to_issue\<close>: a truthy stored \<open>jira_issue_key\<close> selects the update
  path, anything else the create path; \<open>except Exception\<close> turns every exception into a
  failed result.
\<close>

definition linked :: "requirement \<Rightarrow> bool" where
  "linked requirement = truthy (get_or_none requirement ''jira_issue_key'')"

definition sync_requirement_to_issue ::
  "'s jira_api \<Rightarrow> string \<Rightarrow> sync_config \<Rightarrow> requirement \<Rightarrow> 's world
     \<Rightarrow> (exn + item_result) \<times> 's world" where
  "sync_requirement_to_issue client project_key cfg requirement w =
     (case (if linked requirement
            then update_jira_issue client (get_or_none requirement ''jira_issue_key'')
                   requirement cfg w
            else create_jira_issue client project_key requirement cfg w) of
        (Inl e, w') \<Rightarrow> (Inr (Failed (str_exn e)), w')
      | (Inr r, w') \<Rightarrow> (Inr r, w'))"

section \<open>jira\_adapter.py: sync\_project\<close>

record sync_results =
  synced_items :: nat
  created_items :: nat
  updated_items :: nat
  errors :: "(pyval \<times> string) list"

definition empty_results :: sync_results where
  "empty_results = \<lparr>synced_items = 0, created_items = 0, updated_items = 0, errors = []\<rparr>"

text \<open>
  The body of the \<open>for requirement in requirements\<close> loop after the per-requirement
  call: a successful result counts as synced and then as created or, in the \<open>else\<close>
  branch, as updated; a failed result or an exception appends an error entry
  \<open>{"req_id": requirement.get("req_id"), "error": ...}\<close>.
\<close>

definition tally :: "requirement \<Rightarrow> exn + item_result \<Rightarrow> sync_results \<Rightarrow> sync_results" where
  "tally requirement r res =
     (case r of
        Inr result \<Rightarrow>
          if result_success result
          then
            (let res1 = res\<lparr>synced_items := synced_items res + 1\<rparr>
             in if result_created result
                then res1\<lparr>created_items := created_items res1 + 1\<rparr>
                else res1\<lparr>updated_items := updated_items res1 + 1\<rparr>)
          else res\<lparr>errors := errors res @ [(get_or_none requirement ''req_id'', result_error result)]\<rparr>
      | Inl e \<Rightarrow>
          res\<lparr>errors := errors res @ [(get_or_none requirement ''req_id'', str_exn e)]\<rparr>)"

text \<open>
  The loop is the same text in the three adapters; only the per-requirement function
  differs, so it is a parameter.
\<close>

fun sync_requirements ::
  "(requirement \<Rightarrow> 'w \<Rightarrow> (exn + item_result) \<times> 'w) \<Rightarrow> requirement list \<Rightarrow> sync_results \<Rightarrow> 'w
     \<Rightarrow> sync_results \<times> 'w" where
  "sync_requirements sync_one [] res w = (res, w)"
| "sync_requirements sync_one (requirement # rest) res w =
     (case sync_one requirement w of
        (r, w') \<Rightarrow> sync_requirements sync_one rest (tally requirement r res) w')"

text \<open>The per-requirement outcomes of a batch, in order, each in the state its predecessors left.\<close>

fun item_outcomes ::
  "(requirement \<Rightarrow> 'w \<Rightarrow> (exn + item_result) \<times> 'w) \<Rightarrow> requirement list \<Rightarrow> 'w
     \<Rightarrow> (exn + item_result) list" where
  "item_outcomes sync_one [] w = []"
| "item_outcomes sync_one (requirement # rest) w =
     (case sync_one requirement w of (r, w') \<Rightarrow> r # item_outcomes sync_one rest w')"

definition outcome_ok :: "exn + item_result \<Rightarrow> bool" where
  "outcome_ok r = (case r of Inl e \<Rightarrow> False | Inr result \<Rightarrow> result_success result)"

definition outcome_message :: "exn + item_result \<Rightarrow> string" where
  "outcome_message r = (case r of Inl e \<Rightarrow> str_exn e | Inr result \<Rightarrow> result_error result)"

record 's jira_adapter =
  jira_client :: "'s jira_api option"

definition jira_name :: string where
  "jira_name = ''JiraAdapter''"

definition sync_project_body ::
  "'s jira_adapter \<Rightarrow> string \<Rightarrow> sync_config \<Rightarrow> 's world
     \<Rightarrow> (exn + sync_results envelope) \<times> 's world" where
  "sync_project_body self project_id cfg w =
     (case jira_client self of
        None \<Rightarrow> (Inr (format_error_response jira_name ''Jira client not initialized''), w)
      | Some client \<Rightarrow>
          (case jira_project_key cfg of
             None \<Rightarrow>
               (Inr (format_error_response jira_name
                       ''Jira project key not specified in sync config''), w)
           | Some key \<Rightarrow>
               if key = []
               then (Inr (format_error_response jira_name
                            ''Jira project key not specified in sync config''), w)
               else
                 (case remote (Project key) (client_project client key) w of
                    (Inl e, w1) \<Rightarrow>
                      (if class_of e = JIRAError
                       then Inr (format_error_response jira_name
                                   (''Jira project not found: '' @ str_exn e))
                       else Inl e, w1)
                  | (Inr u, w1) \<Rightarrow>
                      (case sync_requirements (sync_requirement_to_issue client key cfg)
                              (requirements cfg) empty_results w1 of
                         (res, w2) \<Rightarrow> (Inr (format_success_response jira_name res), w2)))))"

definition sync_project ::
  "'s jira_adapter \<Rightarrow> string \<Rightarrow> sync_config \<Rightarrow> 's world \<Rightarrow> sync_results envelope \<times> 's world" where
  "sync_project self project_id cfg w =
     (case sync_project_body self project_id cfg w of
        (Inl e, w') \<Rightarrow>
          (format_error_response jira_name (''Project sync failed: '' @ str_exn e), w')
      | (Inr r, w') \<Rightarrow> (r, w'))"


fun is_update :: "jira_call \<Rightarrow> bool" where
  "is_update (UpdateIssue k d) = True"
| "is_update c = False"

section \<open>jira\_adapter.py: update\_item\<close>

text \<open>
  The single-item operation: the client check, the fetch, \<open>map_fields\<close>, the update.
  Its \<open>try\<close> has one handler, \<open>except JIRAError\<close>; the result is either the envelope
  returned or the exception that leaves the method.
\<close>

definition update_item_body ::
  "'s jira_adapter \<Rightarrow> string \<Rightarrow> pyval pydict \<Rightarrow> (string \<times> target_field) list \<Rightarrow> 's world
     \<Rightarrow> (exn + (string \<times> string list) envelope) \<times> 's world" where
  "update_item_body self item_id item_data mapping w =
     (case jira_client self of
        None \<Rightarrow> (Inr (format_error_response jira_name ''Jira client not initialized''), w)
      | Some client \<Rightarrow>
          (case remote (GetIssue (PStr item_id)) (client_issue client (PStr item_id)) w of
             (Inl e, w1) \<Rightarrow> (Inl e, w1)
           | (Inr issue, w1) \<Rightarrow>
               (let mapped_data = map_fields item_data mapping
                in case remote (UpdateIssue (issue_key issue) mapped_data)
                          (issue_update client issue mapped_data) w1 of
                     (Inl e, w2) \<Rightarrow> (Inl e, w2)
                   | (Inr u, w2) \<Rightarrow>
                       (Inr (format_success_response jira_name
                               (item_id, map fst mapped_data)), w2))))"

definition update_item ::
  "'s jira_adapter \<Rightarrow> string \<Rightarrow> pyval pydict \<Rightarrow> (string \<times> target_field) list \<Rightarrow> 's world
     \<Rightarrow> (exn + (string \<times> string list) envelope) \<times> 's world" where
  "update_item self item_id item_data mapping w =
     (case update_item_body self item_id item_data mapping w of
        (Inl e, w') \<Rightarrow>
          (if class_of e = JIRAError
           then Inr (format_error_response jira_name (''Failed to update item: '' @ str_exn e))
           else Inl e, w')
      | (Inr r, w') \<Rightarrow> (Inr r, w'))"

section \<open>azure\_devops\_adapter.py: update\_item\<close>

text \<open>
  Python's \<open>int(s)\<close> on a string of ASCII characters: surrounding whitespace is
  stripped, one sign is allowed, and the rest must be decimal digits, with single
  underscores allowed between digits; anything else raises \<open>ValueError\<close>.
\<close>

definition is_space :: "char \<Rightarrow> bool" where
  "is_space c =
     (let n = (of_char c :: nat) in (9 \<le> n \<and> n \<le> 13) \<or> (28 \<le> n \<and> n \<le> 32))"

definition is_digit :: "char \<Rightarrow> bool" where
  "is_digit c = (let n = (of_char c :: nat) in 48 \<le> n \<and> n \<le> 57)"

definition digit_value :: "char \<Rightarrow> nat" where
  "digit_value c = of_char c - 48"

definition strip :: "string \<Rightarrow> string" where
  "strip s = rev (dropWhile is_space (rev (dropWhile is_space s)))"

fun parse_digits :: "string \<Rightarrow> bool \<Rightarrow> nat \<Rightarrow> nat option" where
  "parse_digits [] after_digit acc = (if after_digit then Some acc else None)"
| "parse_digits (c # cs) after_digit acc =
     (if is_digit c then parse_digits cs True (10 * acc + digit_value c)
      else if c = CHR ''_'' \<and> after_digit then parse_digits cs False acc
      else None)"

definition py_int :: "string \<Rightarrow> exn + int" where
  "py_int s =
     (let body = strip s;
          (negative, ds) =
            (case body of
               c # rest \<Rightarrow>
                 if c = CHR ''-'' then (True, rest)
                 else if c = CHR ''+'' then (False, rest)
                 else (False, body)
             | [] \<Rightarrow> (False, body))
      in case parse_digits ds False 0 of
           None \<Rightarrow> Inl (Exn ValueError (''invalid literal for int() with base 10: '' @ s))
         | Some n \<Rightarrow> Inr (if negative then - int n else int n))"

text \<open>
  The work-item client call used by \<open>update_item\<close> is a parameter, as for Jira. The
  method maps the fields, builds one \<open>replace\<close> operation per mapped field, converts the
  item id with \<open>int\<close> and calls the client; its \<open>try\<close> has one handler,
  \<open>except ClientException\<close>.
\<close>

datatype patch_operation = JsonPatchOperation string string pyval

record 's azure_api =
  update_work_item :: "patch_operation list \<Rightarrow> int \<Rightarrow> 's \<Rightarrow> (exn + unit) \<times> 's"

record 's azure_adapter =
  wit_client :: "'s azure_api option"

definition azure_name :: string where
  "azure_name = ''AzureDevOpsAdapter''"

definition azure_update_item_body ::
  "'s azure_adapter \<Rightarrow> string \<Rightarrow> pyval pydict \<Rightarrow> (string \<times> target_field) list \<Rightarrow> 's
     \<Rightarrow> (exn + (string \<times> nat) envelope) \<times> 's" where
  "azure_update_item_body self item_id item_data mapping s =
     (case wit_client self of
        None \<Rightarrow>
          (Inr (format_error_response azure_name ''Azure DevOps client not initialized''), s)
      | Some client \<Rightarrow>
          (let mapped_data = map_fields item_data mapping;
               patch_ops = map (\<lambda>(field_path, v).
                                  JsonPatchOperation ''replace'' (''/fields/'' @ field_path) v)
                             mapped_data
           in case py_int item_id of
                Inl e \<Rightarrow> (Inl e, s)
              | Inr n \<Rightarrow>
                  (case update_work_item client patch_ops n s of
                     (Inl e, s') \<Rightarrow> (Inl e, s')
                   | (Inr u, s') \<Rightarrow>
                       (Inr (format_success_response azure_name (item_id, length patch_ops)),
                        s'))))"

definition azure_update_item ::
  "'s azure_adapter \<Rightarrow> string \<Rightarrow> pyval pydict \<Rightarrow> (string \<times> target_field) list \<Rightarrow> 's
     \<Rightarrow> (exn + (string \<times> nat) envelope) \<times> 's" where
  "azure_update_item self item_id item_data mapping s =
     (case azure_update_item_body self item_id item_data mapping s of
        (Inl e, s') \<Rightarrow>
          (if class_of e = ClientException
           then Inr (format_error_response azure_name
                       (''Failed to update item: '' @ str_exn e))
           else Inl e, s')
      | (Inr r, s') \<Rightarrow> (Inr r, s'))"

text \<open>An Azure DevOps adapter whose client accepts every update.\<close>

definition azure_accepting :: "unit azure_adapter" where
  "azure_accepting = \<lparr>wit_client = Some \<lparr>update_work_item = (\<lambda>ops n s. (Inr (), s))\<rparr>\<rparr>"

section \<open>An in-memory Jira server\<close>

text \<open>
  A small server to run the adapter against: it knows some projects, stores issues by
  key, hands out the keys of \<open>fresh\<close> in order, rejects an issue with an empty summary
  with a \<open>JIRAError\<close>, and is unreachable (a connection error, not a \<open>JIRAError\<close>) while
  \<open>online\<close> is false.
\<close>

record mem_jira =
  online :: bool
  projects :: "string list"
  stored :: "(string \<times> pyval pydict) list"
  fresh :: "string list"

definition unreachable :: exn where
  "unreachable = Exn ConnectionError ''Connection refused''"

definition mem_api :: "mem_jira jira_api" where
  "mem_api =
     \<lparr>client_project = (\<lambda>key s.
          if \<not> online s then (Inl unreachable, s)
          else if key \<in> set (projects s) then (Inr (), s)
          else (Inl (Exn JIRAError ''No project could be found''), s)),
      client_create_issue = (\<lambda>issue_data s.
          if \<not> online s then (Inl unreachable, s)
          else if get_or_none issue_data ''summary'' = PStr []
          then (Inl (Exn JIRAError ''You must specify a summary of the issue''), s)
          else
            (case fresh s of
               [] \<Rightarrow> (Inl (Exn JIRAError ''No more issue keys''), s)
             | k # ks \<Rightarrow>
                 (Inr \<lparr>issue_key = k, issue_id = k, issue_fields = issue_data\<rparr>,
                  s\<lparr>stored := AList.update k issue_data (stored s), fresh := ks\<rparr>))),
      client_issue = (\<lambda>key s.
          if \<not> online s then (Inl unreachable, s)
          else
            (case key of
               PStr k \<Rightarrow>
                 (case map_of (stored s) k of
                    None \<Rightarrow> (Inl (Exn JIRAError ''Issue does not exist''), s)
                  | Some f \<Rightarrow> (Inr \<lparr>issue_key = k, issue_id = k, issue_fields = f\<rparr>, s))
             | _ \<Rightarrow> (Inl (Exn JIRAError ''Issue does not exist''), s))),
      issue_update = (\<lambda>issue update_data s.
          if \<not> online s then (Inl unreachable, s)
          else
            (Inr (),
             s\<lparr>stored := AList.update (issue_key issue)
                            (fold (\<lambda>(k, v). AList.update k v) update_data (issue_fields issue))
                            (stored s)\<rparr>))\<rparr>"

definition mem_adapter :: "mem_jira jira_adapter" where
  "mem_adapter = \<lparr>jira_client = Some mem_api\<rparr>"

definition server0 :: mem_jira where
  "server0 = \<lparr>online = True, projects = [''MED''], stored = [], fresh = [''MED-1'', ''MED-2'']\<rparr>"

text \<open>The record and mapping of the spec's scenario, and the same record with a stored key.\<close>

definition req_R1 :: requirement where
  "req_R1 = [(''req_id'', PStr ''R1''), (''title'', PStr ''Validate login''),
             (''text'', PStr ''The system shall validate the login''),
             (''std_tags'', PList [PStr ''ISO_13485''])]"

definition req_R1_linked :: requirement where
  "req_R1_linked = req_R1 @ [(''jira_issue_key'', PStr ''MED-1'')]"

definition req_R2 :: requirement where
  "req_R2 = [(''req_id'', PStr ''R2''), (''title'', PStr []), (''text'', PStr ''No title'')]"

definition req_R3 :: requirement where
  "req_R3 = [(''req_id'', PStr ''R3''), (''title'', PStr ''Audit trail''), (''text'', PStr ''Log it'')]"

definition cfg0 :: "requirement list \<Rightarrow> sync_config" where
  "cfg0 reqs = \<lparr>jira_project_key = Some ''MED'', requirements = reqs,
                issue_type = Some ''Story'', field_mapping = []\<rparr>"

section \<open>alm\_factory.py\<close>

text \<open>
  The factory sees an adapter through the methods it calls. An adapter object is given
  by the dictionary its \<open>get_info\<close> body builds, what \<open>await initialize()\<close> returned
  (no adapter's \<open>initialize\<close> raises: each catches \<open>Exception\<close> and returns false), and
  the outcomes of \<open>await test_connection()\<close> and \<open>await health_check()\<close>.
\<close>

record health =
  healthy :: "bool option"
  health_detail :: "pyval pydict"

record alm_adapter =
  info :: "pyval pydict"
  initialize_returns :: bool
  test_connection_returns :: "exn + pyval pydict envelope"
  health_check_returns :: "exn + health"

text \<open>
  \<open>get_info\<close> is declared \<open>async def\<close>: calling it without \<open>await\<close> yields a coroutine
  object, and subscripting a coroutine raises \<open>TypeError\<close>.
\<close>

datatype pyobj = Coroutine "pyval pydict" | DictObj "pyval pydict"

definition get_info :: "alm_adapter \<Rightarrow> pyobj" where
  "get_info a = Coroutine (info a)"

fun subscript :: "pyobj \<Rightarrow> string \<Rightarrow> exn + pyval" where
  "subscript (Coroutine body) k = Inl (Exn TypeError ''coroutine object is not subscriptable'')"
| "subscript (DictObj d) k =
     (case map_of d k of None \<Rightarrow> Inl (Exn KeyError k) | Some v \<Rightarrow> Inr v)"

text \<open>
  \<open>_initialize_adapters\<close>: for each of the three backends with a configuration, the
  adapter is constructed, \<open>initialize()\<close> is awaited, and the adapter is stored. The
  value \<open>initialize()\<close> returns is not looked at. \<open>make_adapter alm_type config\<close> is the
  adapter object after both steps.
\<close>

definition register ::
  "(string \<Rightarrow> 'c \<Rightarrow> alm_adapter) \<Rightarrow> (string \<times> 'c) list \<Rightarrow> string
     \<Rightarrow> (string \<times> alm_adapter) list \<Rightarrow> (string \<times> alm_adapter) list" where
  "register make_adapter configurations alm_type adapters =
     (case map_of configurations alm_type of
        None \<Rightarrow> adapters
      | Some config \<Rightarrow>
          (let a = make_adapter alm_type config;
               ignored = initialize_returns a
           in AList.update alm_type a adapters))"

definition initialize_adapters ::
  "(string \<Rightarrow> 'c \<Rightarrow> alm_adapter) \<Rightarrow> (string \<times> 'c) list \<Rightarrow> (string \<times> alm_adapter) list
     \<Rightarrow> (string \<times> alm_adapter) list" where
  "initialize_adapters make_adapter configurations adapters =
     register make_adapter configurations ''polarion''
       (register make_adapter configurations ''azure_devops''
          (register make_adapter configurations ''jira'' adapters))"

text \<open>\<open>get_adapter\<close> looks the lower-cased type up; \<open>lower\<close> is \<open>str.lower\<close> on ASCII.\<close>

definition lower_char :: "char \<Rightarrow> char" where
  "lower_char c =
     (let n = (of_char c :: nat) in if 65 \<le> n \<and> n \<le> 90 then char_of (n + 32) else c)"

definition lower :: "string \<Rightarrow> string" where
  "lower s = map lower_char s"

definition get_adapter :: "(string \<times> alm_adapter) list \<Rightarrow> string \<Rightarrow> alm_adapter option" where
  "get_adapter adapters alm_type = map_of adapters (lower alm_type)"

text \<open>
  \<open>get_available_adapters\<close>: the dictionary comprehension evaluates
  \<open>adapter.get_info()["name"]\<close> for each registered adapter; the first exception ends it.
\<close>

fun available_loop ::
  "(string \<times> alm_adapter) list \<Rightarrow> pyval pydict \<Rightarrow> exn + pyval pydict" where
  "available_loop [] acc = Inr acc"
| "available_loop ((alm_type, a) # rest) acc =
     (case subscript (get_info a) ''name'' of
        Inl e \<Rightarrow> Inl e
      | Inr v \<Rightarrow> available_loop rest (AList.update alm_type v acc))"

definition get_available_adapters :: "(string \<times> alm_adapter) list \<Rightarrow> exn + pyval pydict" where
  "get_available_adapters adapters = available_loop adapters []"

definition not_available :: "string \<Rightarrow> 'a envelope" where
  "not_available alm_type =
     \<lparr>success = False, adapter = None,
      error = Some (''Adapter for '' @ alm_type @ '' not available''), data = None\<rparr>"

definition test_connection ::
  "(string \<times> alm_adapter) list \<Rightarrow> string \<Rightarrow> pyval pydict envelope" where
  "test_connection adapters alm_type =
     (case get_adapter adapters alm_type of
        None \<Rightarrow> not_available alm_type
      | Some a \<Rightarrow>
          (case test_connection_returns a of
             Inr result \<Rightarrow> result
           | Inl e \<Rightarrow>
               \<lparr>success = False, adapter = None, error = Some (str_exn e), data = None\<rparr>))"

text \<open>
  \<open>get_health_status\<close>: every adapter gets an entry; a report that is not healthy, or an
  exception, clears \<open>overall_healthy\<close>. Nothing outside the inner \<open>try\<close> can raise, so
  the outer handler is never entered.
\<close>

record health_status =
  overall_healthy :: bool
  adapter_reports :: "(string \<times> health) list"

fun health_loop :: "(string \<times> alm_adapter) list \<Rightarrow> health_status \<Rightarrow> health_status" where
  "health_loop [] hs = hs"
| "health_loop ((alm_type, a) # rest) hs =
     (case health_check_returns a of
        Inr adapter_health \<Rightarrow>
          (let hs1 = hs\<lparr>adapter_reports := AList.update alm_type adapter_health (adapter_reports hs)\<rparr>
           in health_loop rest
                (if \<not> (case healthy adapter_health of None \<Rightarrow> False | Some b \<Rightarrow> b)
                 then hs1\<lparr>overall_healthy := False\<rparr>
                 else hs1))
      | Inl e \<Rightarrow>
          health_loop rest
            (hs\<lparr>adapter_reports :=
                  AList.update alm_type
                    \<lparr>healthy = Some False, health_detail = [(''error'', PStr (str_exn e))]\<rparr>
                    (adapter_reports hs),
                overall_healthy := False\<rparr>))"

definition get_health_status :: "(string \<times> alm_adapter) list \<Rightarrow> health_status" where
  "get_health_status adapters =
     health_loop adapters \<lparr>overall_healthy = True, adapter_reports = []\<rparr>"

text \<open>An adapter reports healthy when its \<open>health_check\<close> returns \<open>healthy: True\<close>.\<close>

definition reports_healthy :: "alm_adapter \<Rightarrow> bool" where
  "reports_healthy a =
     (case health_check_returns a of
        Inl e \<Rightarrow> False
      | Inr h \<Rightarrow> healthy h = Some True)"

text \<open>
  Three adapter objects: a Jira adapter whose credentials were rejected (its client is
  never set, so \<open>initialize\<close> returned false), and two working adapters.
\<close>

definition jira_rejected :: alm_adapter where
  "jira_rejected =
     \<lparr>info = [(''name'', PStr ''Jira Adapter'')],
      initialize_returns = False,
      test_connection_returns = Inr (format_error_response ''JiraAdapter'' ''Jira client not initialized''),
      health_check_returns =
        Inr \<lparr>healthy = Some False, health_detail = [(''error'', PStr ''Client not initialized'')]\<rparr>\<rparr>"

definition azure_working :: alm_adapter where
  "azure_working =
     \<lparr>info = [(''name'', PStr ''Azure DevOps Adapter'')],
      initialize_returns = True,
      test_connection_returns =
        Inr (format_success_response ''AzureDevOpsAdapter''
               [(''connection_status'', PStr ''connected'')]),
      health_check_returns = Inr \<lparr>healthy = Some True, health_detail = []\<rparr>\<rparr>"

definition polarion_working :: alm_adapter where
  "polarion_working =
     \<lparr>info = [(''name'', PStr ''Polarion Adapter'')],
      initialize_returns = True,
      test_connection_returns =
        Inr (format_success_response ''PolarionAdapter''
               [(''connection_status'', PStr ''connected'')]),
      health_check_returns = Inr \<lparr>healthy = Some True, health_detail = []\<rparr>\<rparr>"

definition jira_working :: alm_adapter where
  "jira_working =
     \<lparr>info = [(''name'', PStr ''Jira Adapter'')],
      initialize_returns = True,
      test_connection_returns =
        Inr (format_success_response ''JiraAdapter''
               [(''connection_status'', PStr ''connected'')]),
      health_check_returns = Inr \<lparr>healthy = Some True, health_detail = []\<rparr>\<rparr>"

text \<open>
  Construction from a configuration that only says whether the backend accepts the
  credentials.
\<close>

definition make_adapter0 :: "string \<Rightarrow> bool \<Rightarrow> alm_adapter" where
  "make_adapter0 alm_type credentials_accepted =
     (if alm_type = ''jira''
      then (if credentials_accepted then jira_working else jira_rejected)
      else if alm_type = ''azure_devops'' then azure_working
      else polarion_working)"

definition configurations0 :: "(string \<times> bool) list" where
  "configurations0 = [(''jira'', False), (''azure_devops'', True), (''polarion'', True)]"

section \<open>Sample data\<close>

text \<open>The payloads the adapter builds for the sample requirements, and the server after the first create.\<close>

definition payload_R1 :: "pyval pydict" where
  "payload_R1 =
     [(''project'', PDict [(''key'', PStr ''MED'')]),
      (''summary'', PStr ''Validate login''),
      (''description'', PStr ''The system shall validate the login''),
      (''issuetype'', PDict [(''name'', PStr ''Story'')])]"

definition payload_R2 :: "pyval pydict" where
  "payload_R2 =
     [(''project'', PDict [(''key'', PStr ''MED'')]),
      (''summary'', PStr []),
      (''description'', PStr ''No title''),
      (''issuetype'', PDict [(''name'', PStr ''Story'')])]"

definition server1 :: mem_jira where
  "server1 =
     \<lparr>online = True, projects = [''MED''], stored = [(''MED-1'', payload_R1)],
      fresh = [''MED-2'']\<rparr>"

text \<open>The remote create calls a requirement on the create path gives rise to.\<close>

definition create_calls :: "string \<Rightarrow> sync_config \<Rightarrow> requirement \<Rightarrow> jira_call list" where
  "create_calls project_key cfg requirement =
     (case create_payload project_key requirement cfg of
        Inl e \<Rightarrow> []
      | Inr issue_data \<Rightarrow> [CreateIssue issue_data])"

text \<open>Field mappings: one with an attribute the record lacks, one whose transform raises.\<close>

definition mapping0 :: "(string \<times> target_field) list" where
  "mapping0 =
     [(''title'', Flat ''summary''), (''priority'', Flat ''priority''),
      (''text'', Nested (Some ''description'') None)]"

definition failing_transform :: transform where
  "failing_transform = Callable (\<lambda>v. Inl (Exn ValueError ''unknown tag''))"

definition mapping_raising :: "(string \<times> target_field) list" where
  "mapping_raising =
     [(''title'', Flat ''summary''),
      (''std_tags'', Nested (Some ''labels'') (Some failing_transform))]"



section \<open>Field mapping: what map\_fields writes\<close>

lemma map_entry_source:
  assumes "map_entry src e acc = Inr m" "map_of m k = Some v"
  shows "map_of acc k = Some v \<or>
         (\<exists>x. map_of src (fst e) = Some x \<and> field_of (snd e) = Some k
               \<and> transformed (snd e) x = Inr v)"
  using assms
  by (cases e)
     (auto simp: update_conv'
           split: option.splits target_field.splits transform.splits sum.splits if_splits)

lemma map_fields_loop_source:
  assumes "map_fields_loop src mapping acc = Inr m" "map_of m k = Some v"
  shows "map_of acc k = Some v \<or>
         (\<exists>e \<in> set mapping. \<exists>x. map_of src (fst e) = Some x \<and> field_of (snd e) = Some k
               \<and> transformed (snd e) x = Inr v)"
  using assms
proof (induction mapping arbitrary: acc)
  case Nil
  then show ?case by simp
next
  case (Cons e rest)
  from Cons.prems(1) obtain acc' where step: "map_entry src e acc = Inr acc'"
    and loop: "map_fields_loop src rest acc' = Inr m"
    by (auto split: sum.splits)
  from Cons.IH [OF loop Cons.prems(2)] show ?case
  proof
    assume "map_of acc' k = Some v"
    from map_entry_source [OF step this] show ?thesis by auto
  next
    assume "\<exists>e\<in>set rest. \<exists>x. map_of src (fst e) = Some x \<and> field_of (snd e) = Some k
              \<and> transformed (snd e) x = Inr v"
    then show ?thesis by auto
  qed
qed

lemma map_fields_source:
  assumes "map_of (map_fields src mapping) k = Some v"
  shows "\<exists>e \<in> set mapping. \<exists>x. map_of src (fst e) = Some x \<and> field_of (snd e) = Some k
           \<and> transformed (snd e) x = Inr v"
proof (cases "map_fields_loop src mapping []")
  case (Inl e)
  with assms show ?thesis by (simp add: map_fields_def)
next
  case (Inr m)
  with assms have "map_of m k = Some v" by (simp add: map_fields_def)
  from map_fields_loop_source [OF Inr this] show ?thesis by simp
qed

lemma map_entry_absent:
  "map_of src (fst e) = None \<Longrightarrow> map_entry src e acc = Inr acc"
  by (cases e) simp

lemma map_fields_loop_present_only:
  "map_fields_loop src mapping acc =
     map_fields_loop src [e \<leftarrow> mapping. map_of src (fst e) \<noteq> None] acc"
proof (induction mapping arbitrary: acc)
  case Nil
  then show ?case by simp
next
  case (Cons e rest)
  show ?case
  proof (cases "map_of src (fst e)")
    case None
    with map_entry_absent [OF None, of acc] Cons.IH show ?thesis by simp
  next
    case (Some x)
    with Cons.IH show ?thesis by (simp split: sum.splits)
  qed
qed

lemma map_fields_present_only:
  "map_fields src mapping = map_fields src [e \<leftarrow> mapping. map_of src (fst e) \<noteq> None]"
  using map_fields_loop_present_only [of src mapping "[]"] by (simp add: map_fields_def)

lemma map_fields_absent_key:
  assumes "\<forall>e \<in> set mapping. field_of (snd e) = Some k \<longrightarrow> map_of src (fst e) = None"
  shows "k \<notin> fst ` set (map_fields src mapping)"
proof
  assume "k \<in> fst ` set (map_fields src mapping)"
  then obtain v where "map_of (map_fields src mapping) k = Some v"
    by (metis domD dom_map_of_conv_image_fst)
  from map_fields_source [OF this] assms show False by auto
qed

text \<open>
  Claim C6. Mapping entries whose source attribute is absent from the record are skipped:
  the payload is the one the mapping restricted to the present attributes produces; every
  field of the payload comes from an entry whose source attribute is present, and holds
  that attribute's value with the entry's transform applied; and a field that only
  absent entries map to does not occur in the payload.
\<close>

theorem map_fields_skips_absent:
  "map_fields source_data mapping =
     map_fields source_data [e \<leftarrow> mapping. map_of source_data (fst e) \<noteq> None]
   \<and> (\<forall>k v. map_of (map_fields source_data mapping) k = Some v \<longrightarrow>
          (\<exists>e \<in> set mapping. \<exists>x. map_of source_data (fst e) = Some x
              \<and> field_of (snd e) = Some k \<and> transformed (snd e) x = Inr v))
   \<and> (\<forall>k. (\<forall>e \<in> set mapping. field_of (snd e) = Some k \<longrightarrow> map_of source_data (fst e) = None)
          \<longrightarrow> k \<notin> fst ` set (map_fields source_data mapping))"
  using map_fields_present_only [of source_data mapping]
        map_fields_source [of source_data mapping]
        map_fields_absent_key [of mapping _ source_data]
  by blast

theorem map_fields_skips_absent_witness:
  "map_fields req_R1 mapping0 =
     [(''summary'', PStr ''Validate login''),
      (''description'', PStr ''The system shall validate the login'')]
   \<and> map_of req_R1 ''priority'' = None
   \<and> ''priority'' \<notin> fst ` set (map_fields req_R1 mapping0)"
  using map_fields_skips_absent [of req_R1 mapping0]
  by (auto simp: map_fields_def mapping0_def req_R1_def)

lemma map_entry_raises:
  "raising_entry src e \<Longrightarrow> isl (map_entry src e acc)"
  by (cases e)
     (auto simp: raising_entry_def
           split: option.splits target_field.splits transform.splits sum.splits)

lemma map_fields_loop_raises:
  "\<exists>e \<in> set mapping. raising_entry src e \<Longrightarrow> isl (map_fields_loop src mapping acc)"
proof (induction mapping arbitrary: acc)
  case Nil
  then show ?case by simp
next
  case (Cons e rest)
  show ?case
  proof (cases "map_entry src e acc")
    case (Inl x)
    then show ?thesis by simp
  next
    case (Inr acc')
    with map_entry_raises [of src e acc] have "\<not> raising_entry src e" by auto
    with Cons.prems have "\<exists>e \<in> set rest. raising_entry src e" by auto
    from Cons.IH [OF this] Inr show ?thesis by simp
  qed
qed

text \<open>
  Claim C10. If the transform of some mapping entry raises when it is applied to the
  record's value, \<open>map_fields\<close> returns the empty dictionary: the fields mapped before the
  failure are discarded, and the result is a dictionary, not an exception.
\<close>

theorem map_fields_transform_raises:
  assumes "\<exists>e \<in> set mapping. raising_entry source_data e"
  shows "map_fields source_data mapping = []"
  using map_fields_loop_raises [OF assms, of "[]"]
  by (auto simp: map_fields_def split: sum.splits)

theorem map_fields_transform_raises_witness:
  "map_fields_loop req_R1 [(''title'', Flat ''summary'')] []
     = Inr [(''summary'', PStr ''Validate login'')]
   \<and> raising_entry req_R1 (''std_tags'', Nested (Some ''labels'') (Some failing_transform))
   \<and> map_fields req_R1 mapping_raising = []"
proof -
  have r: "\<exists>e \<in> set mapping_raising. raising_entry req_R1 e"
    by (simp add: mapping_raising_def raising_entry_def req_R1_def failing_transform_def)
  from map_fields_transform_raises [OF r] show ?thesis
    by (simp add: raising_entry_def req_R1_def failing_transform_def)
qed

section \<open>Retry with backoff\<close>









section \<open>Synchronising a batch\<close>

lemmas run_simps =
  sync_project_def sync_project_body_def sync_requirement_to_issue_def create_jira_issue_def
  update_jira_issue_def catch_jira_def compute_update_data_def create_payload_def new_summary_def
  new_description_def field_attr_def remote_def linked_def get_or_none_def tally_def
  empty_results_def outcome_ok_def mem_api_def mem_adapter_def server0_def server1_def cfg0_def
  req_R1_def req_R2_def req_R3_def req_R1_linked_def payload_R1_def payload_R2_def
  format_success_response_def format_error_response_def jira_name_def create_calls_def Let_def

lemma sync_requirements_append:
  "sync_requirements f (xs @ ys) res w =
     (case sync_requirements f xs res w of (res', w') \<Rightarrow> sync_requirements f ys res' w')"
  by (induction xs arbitrary: res w) (auto split: prod.splits)

lemma tally_ok:
  "outcome_ok r \<Longrightarrow>
     synced_items (tally q r res) = Suc (synced_items res) \<and> errors (tally q r res) = errors res"
  by (auto simp: tally_def outcome_ok_def Let_def split: sum.splits)

lemma sync_requirements_all_ok:
  "list_all outcome_ok (item_outcomes f reqs w) \<Longrightarrow>
     synced_items (fst (sync_requirements f reqs res w)) = synced_items res + length reqs
     \<and> errors (fst (sync_requirements f reqs res w)) = errors res"
proof (induction reqs arbitrary: res w)
  case Nil
  then show ?case by simp
next
  case (Cons q rest)
  obtain r w' where step: "f q w = (r, w')" by (cases "f q w")
  with Cons.prems have ok: "outcome_ok r"
    and rest: "list_all outcome_ok (item_outcomes f rest w')"
    by simp_all
  from Cons.IH [OF rest, of "tally q r res"] tally_ok [OF ok, of q res] step
  show ?case by simp
qed

lemma create_call_fails:
  assumes "\<not> linked q" "create_payload key q cfg = Inr payload"
    and "client_create_issue client payload s = (Inl e, s')"
  shows "sync_requirement_to_issue client key cfg q (s, calls) =
           (Inr (Failed (str_exn e)), (s', calls @ [CreateIssue payload]))"
  using assms
  by (simp add: sync_requirement_to_issue_def create_jira_issue_def remote_def)


lemma sync_project_loop:
  assumes "jira_client self = Some client" "jira_project_key cfg = Some key" "key \<noteq> []"
    and "client_project client key s = (Inr u, s1)"
  shows "sync_project self project_id cfg (s, calls) =
           (format_success_response jira_name
              (fst (sync_requirements (sync_requirement_to_issue client key cfg)
                      (requirements cfg) empty_results (s1, calls @ [Project key]))),
            snd (sync_requirements (sync_requirement_to_issue client key cfg)
                      (requirements cfg) empty_results (s1, calls @ [Project key])))"
  using assms
  by (simp add: sync_project_def sync_project_body_def remote_def split: prod.splits)









text \<open>
  Claim C4. In a batch that reaches the loop, if the create call of one record fails
  (with a \<open>JIRAError\<close>, which \<open>_create_jira_issue\<close> returns as an error result, or with
  any other exception, which it raises) and every record before and after it succeeds,
  then \<open>sync_project\<close> returns a success envelope, not an exception; \<open>synced_items\<close> is
  the number of records minus one; and \<open>errors\<close> has exactly one entry, with the failing
  record's \<open>req_id\<close> and the message of the error.
\<close>

theorem sync_project_partial_failure:
  assumes client: "jira_client self = Some client"
    and key: "jira_project_key cfg = Some key" "key \<noteq> []"
    and proj: "client_project client key s = (Inr u, s1)"
    and reqs: "requirements cfg = pre @ bad # post"
    and pre: "list_all outcome_ok
                (item_outcomes (sync_requirement_to_issue client key cfg) pre
                   (s1, calls @ [Project key]))"
    and mid: "snd (sync_requirements (sync_requirement_to_issue client key cfg) pre
                     empty_results (s1, calls @ [Project key])) = (s2, calls2)"
    and bad: "\<not> linked bad" "create_payload key bad cfg = Inr payload"
             "client_create_issue client payload s2 = (Inl e, s3)"
    and post: "list_all outcome_ok
                (item_outcomes (sync_requirement_to_issue client key cfg) post
                   (s3, calls2 @ [CreateIssue payload]))"
  shows "\<exists>res w'. sync_project self project_id cfg (s, calls)
                    = (format_success_response jira_name res, w')
           \<and> synced_items res = length (requirements cfg) - 1
           \<and> errors res = [(get_or_none bad ''req_id'', str_exn e)]"
proof -
  let ?f = "sync_requirement_to_issue client key cfg"
  let ?w1 = "(s1, calls @ [Project key])"
  obtain res1 where r1: "sync_requirements ?f pre empty_results ?w1 = (res1, (s2, calls2))"
    using mid by (cases "sync_requirements ?f pre empty_results ?w1") simp
  from sync_requirements_all_ok [OF pre, of empty_results] r1
  have c1: "synced_items res1 = length pre" "errors res1 = []"
    by (simp_all add: empty_results_def)
  let ?res2 = "tally bad (Inr (Failed (str_exn e))) res1"
  have c2: "synced_items ?res2 = length pre"
    "errors ?res2 = [(get_or_none bad ''req_id'', str_exn e)]"
    using c1 by (simp_all add: tally_def)
  let ?w3 = "(s3, calls2 @ [CreateIssue payload])"
  have step: "?f bad (s2, calls2) = (Inr (Failed (str_exn e)), ?w3)"
    by (rule create_call_fails [OF bad])
  from sync_requirements_all_ok [OF post, of ?res2] c2
  have c3: "synced_items (fst (sync_requirements ?f post ?res2 ?w3)) = length pre + length post"
    "errors (fst (sync_requirements ?f post ?res2 ?w3)) = [(get_or_none bad ''req_id'', str_exn e)]"
    by simp_all
  have all: "sync_requirements ?f (requirements cfg) empty_results ?w1
               = sync_requirements ?f post ?res2 ?w3"
    using r1 step by (simp add: reqs sync_requirements_append)
  show ?thesis
    using sync_project_loop [OF client key proj, of project_id calls] all c3 reqs
    by (intro exI [of _ "fst (sync_requirements ?f post ?res2 ?w3)"]
              exI [of _ "snd (sync_requirements ?f post ?res2 ?w3)"]) simp
qed

theorem sync_project_partial_failure_witness:
  "\<exists>res w'. sync_project mem_adapter ''p'' (cfg0 [req_R1, req_R2, req_R3]) (server0, [])
               = (format_success_response jira_name res, w')
           \<and> synced_items res = 2
           \<and> errors res = [(PStr ''R2'', ''You must specify a summary of the issue'')]"
proof -
  let ?cfg = "cfg0 [req_R1, req_R2, req_R3]"
  let ?f = "sync_requirement_to_issue mem_api ''MED'' ?cfg"
  have client: "jira_client mem_adapter = Some mem_api" by (simp add: mem_adapter_def)
  have key: "jira_project_key ?cfg = Some ''MED''" "''MED'' \<noteq> []" by (simp_all add: cfg0_def)
  have proj: "client_project mem_api ''MED'' server0 = (Inr (), server0)"
    by (simp add: mem_api_def server0_def)
  have reqs: "requirements ?cfg = [req_R1] @ req_R2 # [req_R3]" by (simp add: cfg0_def)
  have pre: "list_all outcome_ok (item_outcomes ?f [req_R1] (server0, [] @ [Project ''MED'']))"
    by (simp add: run_simps)
  have mid: "snd (sync_requirements ?f [req_R1] empty_results (server0, [] @ [Project ''MED'']))
               = (server1, [Project ''MED'', CreateIssue payload_R1])"
    by (simp add: run_simps)
  have bad: "\<not> linked req_R2" "create_payload ''MED'' req_R2 ?cfg = Inr payload_R2"
    "client_create_issue mem_api payload_R2 server1
       = (Inl (Exn JIRAError ''You must specify a summary of the issue''), server1)"
    by (simp_all add: run_simps)
  have post: "list_all outcome_ok (item_outcomes ?f [req_R3]
                 (server1, [Project ''MED'', CreateIssue payload_R1] @ [CreateIssue payload_R2]))"
    by (simp add: run_simps)
  from sync_project_partial_failure [OF client key proj reqs pre mid bad post, of "''p''"]
  show ?thesis by (simp add: cfg0_def get_or_none_def req_R2_def numeral_2_eq_2)
qed

section \<open>Single-item operations\<close>

text \<open>
  Claim C5 fails on the code. The single-item operations of the Jira and Azure DevOps
  adapters catch only the backend library's exception class. In the Azure DevOps
  \<open>update_item\<close>, an item id that is not a number makes \<open>int(item_id)\<close> raise
  \<open>ValueError\<close>; in the Jira \<open>update_item\<close>, an unreachable server makes the fetch raise
  a connection error. Both leave the method as exceptions instead of being returned in
  an envelope, while a valid id is answered with a success envelope.
\<close>

theorem update_item_propagates:
  "fst (azure_update_item azure_accepting ''abc'' [] [] ())
     = Inl (Exn ValueError ''invalid literal for int() with base 10: abc'')
   \<and> fst (azure_update_item azure_accepting ''17'' [] [] ())
     = Inr (format_success_response azure_name (''17'', 0))
   \<and> fst (update_item mem_adapter ''MED-1'' [] [] (server0\<lparr>online := False\<rparr>, []))
     = Inl (Exn ConnectionError ''Connection refused'')"
  by (simp add: azure_update_item_def azure_update_item_body_def azure_accepting_def
        py_int_def strip_def is_space_def is_digit_def digit_value_def map_fields_def
        update_item_def update_item_body_def mem_adapter_def mem_api_def remote_def
        server0_def unreachable_def Let_def)

section \<open>The factory\<close>

text \<open>
  Claim C3 fails on the code. With a Jira configuration whose credentials are rejected
  (\<open>initialize\<close> returned false) next to two working backends, the factory still holds
  the Jira adapter: \<open>get_adapter\<close> finds it, \<open>get_available_adapters\<close> raises instead of
  listing the other two, and \<open>test_connection\<close> returns the adapter's own error, not the
  factory's "not available" error.
\<close>

theorem failed_adapter_stays_registered:
  "initialize_returns (make_adapter0 ''jira'' False) = False
   \<and> get_adapter (initialize_adapters make_adapter0 configurations0 []) ''jira''
       = Some jira_rejected
   \<and> get_adapter (initialize_adapters make_adapter0 configurations0 []) ''azure_devops''
       = Some azure_working
   \<and> get_available_adapters (initialize_adapters make_adapter0 configurations0 [])
       = Inl (Exn TypeError ''coroutine object is not subscriptable'')
   \<and> test_connection (initialize_adapters make_adapter0 configurations0 []) ''jira''
       = format_error_response ''JiraAdapter'' ''Jira client not initialized''
   \<and> test_connection (initialize_adapters make_adapter0 configurations0 []) ''jira''
       \<noteq> not_available ''jira''"
  by (simp add: initialize_adapters_def register_def make_adapter0_def configurations0_def
        get_adapter_def lower_def lower_char_def get_available_adapters_def get_info_def
        test_connection_def jira_rejected_def not_available_def format_error_response_def
        Let_def)

text \<open>
  Claim C8. Whenever at least one adapter is registered, \<open>get_available_adapters\<close>
  raises \<open>TypeError\<close>, because it subscripts the coroutine that the un-awaited
  \<open>get_info()\<close> returns; with no adapter registered it returns the empty dictionary.
\<close>

theorem get_available_adapters_type_error:
  "(adapters \<noteq> [] \<longrightarrow>
      get_available_adapters adapters
        = Inl (Exn TypeError ''coroutine object is not subscriptable''))
   \<and> get_available_adapters [] = Inr []"
  by (cases adapters) (auto simp: get_available_adapters_def get_info_def)

theorem get_available_adapters_type_error_witness:
  "[(''azure_devops'', azure_working)] \<noteq> []
   \<and> get_available_adapters [(''azure_devops'', azure_working)]
       = Inl (Exn TypeError ''coroutine object is not subscriptable'')"
  using get_available_adapters_type_error [of "[(''azure_devops'', azure_working)]"] by simp

lemma health_loop_overall:
  "overall_healthy (health_loop adapters hs) =
     (overall_healthy hs \<and> (\<forall>p \<in> set adapters. reports_healthy (snd p)))"
proof (induction adapters arbitrary: hs)
  case Nil
  then show ?case by simp
next
  case (Cons p rest)
  obtain alm_type a where p: "p = (alm_type, a)" by (cases p)
  show ?case
  proof (cases "health_check_returns a")
    case (Inl e)
    then show ?thesis by (simp add: p Cons.IH reports_healthy_def)
  next
    case (Inr h)
    then show ?thesis
      by (cases "healthy h") (auto simp: p Cons.IH reports_healthy_def Let_def)
  qed
qed

lemma health_loop_reports:
  "fst ` set (adapter_reports (health_loop adapters hs)) =
     fst ` set (adapter_reports hs) \<union> fst ` set adapters"
proof (induction adapters arbitrary: hs)
  case Nil
  then show ?case by simp
next
  case (Cons p rest)
  obtain alm_type a where p: "p = (alm_type, a)" by (cases p)
  show ?case
    by (cases "health_check_returns a") (auto simp: p Cons.IH Let_def dom_update)
qed

text \<open>
  Claim C9. \<open>get_health_status\<close> reports \<open>overall_healthy\<close> exactly when every registered
  adapter's \<open>health_check\<close> returns \<open>healthy: True\<close> without raising, and its per-adapter
  reports have an entry for every registered adapter, healthy or not.
\<close>

theorem get_health_status_overall:
  "overall_healthy (get_health_status adapters) = (\<forall>p \<in> set adapters. reports_healthy (snd p))
   \<and> fst ` set (adapter_reports (get_health_status adapters)) = fst ` set adapters"
  by (simp add: get_health_status_def health_loop_overall health_loop_reports)

theorem get_health_status_overall_witness:
  "\<not> overall_healthy (get_health_status [(''jira'', jira_rejected), (''azure_devops'', azure_working)])
   \<and> overall_healthy
       (get_health_status [(''azure_devops'', azure_working), (''polarion'', polarion_working)])
   \<and> fst ` set (adapter_reports
                  (get_health_status [(''jira'', jira_rejected), (''azure_devops'', azure_working)]))
        = {''jira'', ''azure_devops''}"
  using get_health_status_overall [of "[(''jira'', jira_rejected), (''azure_devops'', azure_working)]"]
        get_health_status_overall
          [of "[(''azure_devops'', azure_working), (''polarion'', polarion_working)]"]
  by (simp add: reports_healthy_def jira_rejected_def azure_working_def polarion_working_def)

end
